theory Spec2Isabelle
  imports Main "HOL-Library.Word" "HOL-Library.Sublist"
begin

section \<open>Platform values shared by both components\<close>

text \<open>
  Bytes of a response body are 8-bit words, the code units of a JavaScript string are
  16-bit words (\<open>length\<close> of a JavaScript string counts UTF-16 code units). Header names
  and values are byte strings, so they are HOL strings.

  An exception thrown (or a promise rejected) by a platform call is a value of \<open>error\<close>.
\<close>

type_synonym byte = "8 word"

type_synonym jsstring = "16 word list"

datatype error = TypeError | RangeError | StreamError | OperationError | UpstreamError

section \<open>The caching middleware: \<open>src/middleware.ts\<close>\<close>

subsection \<open>Headers\<close>

text \<open>
  A \<open>Headers\<close> object is modelled by what \<open>get\<close> observes: a partial map from
  lower-cased header names to values. \<open>get\<close> and \<open>set\<close> compare names without regard
  to ASCII case, \<open>set\<close> replaces every value stored under the name, and
  \<open>new Headers(h)\<close> copies \<open>h\<close>.
\<close>

type_synonym headers = "string \<rightharpoonup> string"

definition lowerChar :: "char \<Rightarrow> char" where
  "lowerChar c =
     (case map_of (zip ''ABCDEFGHIJKLMNOPQRSTUVWXYZ'' ''abcdefghijklmnopqrstuvwxyz'') c of
        Some l \<Rightarrow> l
      | None \<Rightarrow> c)"

definition toLowerCase :: "string \<Rightarrow> string" where
  "toLowerCase s = map lowerChar s"

definition headers_get :: "headers \<Rightarrow> string \<Rightarrow> string option" where
  "headers_get h name = h (toLowerCase name)"

definition headers_set :: "headers \<Rightarrow> string \<Rightarrow> string \<Rightarrow> headers" where
  "headers_set h name v = h(toLowerCase name \<mapsto> v)"

definition new_Headers :: headers where
  "new_Headers = Map.empty"

text \<open>
  JavaScript truthiness of the result of \<open>headers.get\<close>: \<open>null\<close> and the empty string
  are falsy. \<open>String(null)\<close> is \<open>"null"\<close>.
\<close>

fun truthy :: "string option \<Rightarrow> bool" where
  "truthy None = False"
| "truthy (Some s) = (s \<noteq> [])"

fun stringOf :: "string option \<Rightarrow> string" where
  "stringOf None = ''null''"
| "stringOf (Some s) = s"

subsection \<open>Requests and responses\<close>

text \<open>
  A body is a stream: the chunks it delivers, whether it errors instead of closing,
  and whether it has already been read (a disturbed body can be neither cloned nor
  drained). \<open>response.body\<close> is \<open>null\<close> for a response without a body.
\<close>

record body_stream =
  chunks :: "byte list list"
  failure :: "error option"
  disturbed :: bool

record response =
  status :: nat
  statusText :: string
  headers :: headers
  body :: "body_stream option"

record request =
  req_headers :: headers

record api_context =
  request :: request

definition clone :: "response \<Rightarrow> error + response" where
  "clone r =
     (case body r of
        None \<Rightarrow> Inr r
      | Some b \<Rightarrow> if disturbed b then Inl TypeError else Inr r)"

definition arrayBuffer :: "response \<Rightarrow> error + byte list" where
  "arrayBuffer r =
     (case body r of
        None \<Rightarrow> Inr []
      | Some b \<Rightarrow>
          if disturbed b then Inl TypeError
          else (case failure b of Some e \<Rightarrow> Inl e | None \<Rightarrow> Inr (concat (chunks b))))"

text \<open>
  \<open>new Response(body, {status, statusText, headers})\<close>. The constructor throws a
  \<open>RangeError\<close> for a status outside 200 to 599, and a \<open>TypeError\<close> for a body that
  is not \<open>null\<close> together with a null body status (101, 103, 204, 205 or 304). A
  buffer becomes a one-chunk body. The status texts the middleware passes are the empty
  one and the one of a response the platform handed out, which are reason phrases, so the
  constructor's check of the status text is no branch here.
\<close>

definition nullBodyStatus :: "nat \<Rightarrow> bool" where
  "nullBodyStatus st = (st = 101 \<or> st = 103 \<or> st = 204 \<or> st = 205 \<or> st = 304)"

definition new_Response ::
  "byte list option \<Rightarrow> nat \<Rightarrow> string \<Rightarrow> headers \<Rightarrow> error + response" where
  "new_Response b st txt hs =
     (if st < 200 \<or> 599 < st then Inl RangeError
      else if b \<noteq> None \<and> nullBodyStatus st then Inl TypeError
      else Inr \<lparr>status = st, statusText = txt, headers = hs,
                body = (case b of
                          None \<Rightarrow> None
                        | Some buf \<Rightarrow>
                            Some \<lparr>chunks = [buf], failure = None, disturbed = False\<rparr>)\<rparr>)"

subsection \<open>\<open>digest\<close>\<close>

text \<open>
  \<open>crypto.subtle.digest("SHA-256", _)\<close> and \<open>TextEncoder.encode\<close> belong to the
  platform, not to this repository: they are parameters of the model.
\<close>

record platform =
  subtle_digest :: "byte list \<Rightarrow> error + byte list"
  text_encode :: "jsstring \<Rightarrow> byte list"

datatype digest_val = StringVal jsstring | Uint8ArrayVal "byte list"

definition hexDigit :: "nat \<Rightarrow> char" where
  "hexDigit d = ''0123456789abcdef'' ! d"

text \<open>\<open>Number.prototype.toString(16)\<close> on a non-negative integer.\<close>

function toString16 :: "nat \<Rightarrow> string" where
  "toString16 n =
     (if n < 16 then [hexDigit n] else toString16 (n div 16) @ [hexDigit (n mod 16)])"
  by pat_completeness auto
termination
  by (relation "measure id") auto

declare toString16.simps [simp del]

text \<open>\<open>String.prototype.padStart(targetLength, padString)\<close>.\<close>

definition padStart :: "nat \<Rightarrow> string \<Rightarrow> string \<Rightarrow> string" where
  "padStart targetLength padString s =
     (if targetLength \<le> length s \<or> padString = [] then s
      else take (targetLength - length s)
             (concat (replicate (targetLength - length s) padString)) @ s)"

definition digest :: "platform \<Rightarrow> digest_val \<Rightarrow> error + string" where
  "digest P val =
     (case subtle_digest P
             (case val of StringVal s \<Rightarrow> text_encode P s | Uint8ArrayVal bs \<Rightarrow> bs) of
        Inl e \<Rightarrow> Inl e
      | Inr hash \<Rightarrow> Inr (concat (map (\<lambda>b. padStart 2 ''0'' (toString16 (unat b))) hash)))"

subsection \<open>\<open>onRequest\<close>\<close>

definition cacheControl :: string where
  "cacheControl = ''public, max-age=31536000, must-revalidate''"

text \<open>
  What one run of the middleware does: the response it returns (or the failure it
  rejects with), and the buffers it handed to \<open>digest\<close>, in order.
\<close>

record outcome =
  returned :: "error + response"
  digested :: "byte list list"

text \<open>
  \<open>next\<close> is the awaited result of the producer, which is invoked exactly once.
\<close>

definition onRequest :: "platform \<Rightarrow> api_context \<Rightarrow> error + response \<Rightarrow> outcome" where
  "onRequest P ctx next =
     (let req = request ctx;
          ifNoneMatch = headers_get (req_headers req) ''if-none-match''
      in case next of
           Inl e \<Rightarrow> \<lparr>returned = Inl e, digested = []\<rparr>
         | Inr response \<Rightarrow>
             (let existingEtag = headers_get (headers response) ''etag'' in
              if truthy existingEtag then
                (if truthy ifNoneMatch \<and> ifNoneMatch = existingEtag then
                   (let hs = new_Headers;
                        hs = headers_set hs ''ETag'' (stringOf existingEtag);
                        hs = headers_set hs ''Cache-Control'' cacheControl
                    in \<lparr>returned = new_Response None 304 [] hs, digested = []\<rparr>)
                 else \<lparr>returned = Inr response, digested = []\<rparr>)
              else if body response = None then \<lparr>returned = Inr response, digested = []\<rparr>
              else
                (case clone response of
                   Inl e \<Rightarrow> \<lparr>returned = Inl e, digested = []\<rparr>
                 | Inr cl \<Rightarrow>
                     (case arrayBuffer cl of
                        Inl e \<Rightarrow> \<lparr>returned = Inl e, digested = []\<rparr>
                      | Inr buf \<Rightarrow>
                          (case digest P (Uint8ArrayVal buf) of
                             Inl e \<Rightarrow> \<lparr>returned = Inl e, digested = [buf]\<rparr>
                           | Inr hash \<Rightarrow>
                               (let etag = CHR 0x22 # hash @ [CHR 0x22] in
                                if truthy ifNoneMatch \<and> ifNoneMatch = Some etag then
                                  (let hs = headers response;
                                       hs = headers_set hs ''ETag'' etag;
                                       hs = headers_set hs ''Cache-Control'' cacheControl
                                   in \<lparr>returned = new_Response None 304 [] hs,
                                       digested = [buf]\<rparr>)
                                else
                                  (let hs = headers response;
                                       hs = headers_set hs ''ETag'' etag;
                                       hs = headers_set hs ''Cache-Control'' cacheControl
                                   in \<lparr>returned =
                                         new_Response (Some buf) (status response)
                                           (statusText response) hs,
                                       digested = [buf]\<rparr>)))))))"

section \<open>The selection indexer: \<open>src/components/AsciifyReact.tsx\<close>\<close>

subsection \<open>The document\<close>

text \<open>
  The document is a tree of elements and text nodes. A node is referred to by its path,
  the child indices from the document's root node down to it, so that \<open>===\<close> on nodes
  is equality of paths.
\<close>

datatype node = Text jsstring | Element "node list"

type_synonym path = "nat list"

fun subtree :: "node \<Rightarrow> path \<Rightarrow> node option" where
  "subtree n [] = Some n"
| "subtree (Text s) (i # p) = None"
| "subtree (Element cs) (i # p) = (if i < length cs then subtree (cs ! i) p else None)"

text \<open>
  The text nodes of a subtree in document order, each with its path and its data.
\<close>

fun textNodes :: "path \<Rightarrow> node \<Rightarrow> (path \<times> jsstring) list"
  and textNodesOf :: "path \<Rightarrow> nat \<Rightarrow> node list \<Rightarrow> (path \<times> jsstring) list" where
  "textNodes p (Text s) = [(p, s)]"
| "textNodes p (Element cs) = textNodesOf p 0 cs"
| "textNodesOf p i [] = []"
| "textNodesOf p i (c # cs) = textNodes (p @ [i]) c @ textNodesOf p (Suc i) cs"

text \<open>
  The text-bearing leaves under \<open>root\<close>: the text nodes among the descendants of
  \<open>root\<close>, in document order. This is the sequence that a \<open>TreeWalker\<close> created by
  \<open>document.createTreeWalker(root, NodeFilter.SHOW_TEXT, null)\<close> returns from
  \<open>nextNode()\<close>.
\<close>

definition textLeaves :: "node \<Rightarrow> path \<Rightarrow> (path \<times> jsstring) list" where
  "textLeaves doc root =
     (case subtree doc root of
        Some (Element cs) \<Rightarrow> textNodesOf root 0 cs
      | _ \<Rightarrow> [])"

text \<open>
  What a walker does over its lifetime: each \<open>nextNode()\<close> returns a node, with its
  \<open>textContent\<close> (which may be \<open>null\<close>), or returns \<open>null\<close> (\<open>Done\<close>), or a
  platform call of that iteration throws.
\<close>

datatype walk = Done | Next path "jsstring option" walk | Throw error

fun walkOf :: "(path \<times> jsstring) list \<Rightarrow> walk" where
  "walkOf [] = Done"
| "walkOf ((p, s) # ls) = Next p (Some s) (walkOf ls)"

definition treeWalker :: "node \<Rightarrow> path \<Rightarrow> walk" where
  "treeWalker doc root = walkOf (textLeaves doc root)"

fun walkThen :: "(path \<times> jsstring option) list \<Rightarrow> walk \<Rightarrow> walk" where
  "walkThen [] w = w"
| "walkThen ((p, t) # ns) w = Next p t (walkThen ns w)"

subsection \<open>Ranges and selections\<close>

text \<open>
  A range has two boundary points; its common ancestor container is the deepest node
  that is an ancestor of (or is) both containers, the longest common prefix of their paths.
  \<open>node.contains(other)\<close> holds when \<open>other\<close> is \<open>node\<close> or one of its descendants.
\<close>

record range =
  startContainer :: path
  startOffset :: nat
  endContainer :: path
  endOffset :: nat

definition commonAncestorContainer :: "range \<Rightarrow> path" where
  "commonAncestorContainer r = longest_common_prefix (startContainer r) (endContainer r)"

definition contains :: "path \<Rightarrow> path \<Rightarrow> bool" where
  "contains n other = prefix n other"

text \<open>
  A selection: its ranges (\<open>rangeCount\<close> is their number, \<open>getRangeAt(0)\<close> the
  first) and the string \<open>toString()\<close> gives.
\<close>

record selection =
  ranges :: "range list"
  toString :: jsstring

subsection \<open>The deferred callback of \<open>handleSelectionChange\<close>\<close>

text \<open>
  What the callback hands to \<open>setSelectedChars\<close>, and what it passes to
  \<open>console.warn\<close>.
\<close>

record selected =
  newSelectedChars :: "nat set"
  warned :: "error list"

text \<open>
  The \<open>while\<close> loop of lines 91 to 103: \<open>Inr\<close> of the start and end offsets when the
  loop ends, by \<open>break\<close> or because \<open>nextNode()\<close> returned \<open>null\<close>; \<open>Inl\<close> when
  something throws.
\<close>

fun walkLoop :: "walk \<Rightarrow> range \<Rightarrow> nat \<Rightarrow> nat \<Rightarrow> nat \<Rightarrow> error + nat \<times> nat" where
  "walkLoop Done rng currentOffset startOff endOff = Inr (startOff, endOff)"
| "walkLoop (Throw e) rng currentOffset startOff endOff = Inl e"
| "walkLoop (Next textNode textContent rest) rng currentOffset startOff endOff =
     (let nodeLength = (case textContent of None \<Rightarrow> 0 | Some s \<Rightarrow> length s);
          startOff = (if textNode = startContainer rng
                      then currentOffset + startOffset rng else startOff)
      in if textNode = endContainer rng
         then Inr (startOff, currentOffset + endOffset rng)
         else walkLoop rest rng (currentOffset + nodeLength) startOff endOff)"

text \<open>The \<open>for\<close> loop of lines 106 to 112.\<close>

function addIndices :: "nat \<Rightarrow> nat \<Rightarrow> nat \<Rightarrow> nat set \<Rightarrow> nat set" where
  "addIndices i endOff contentLength acc =
     (if i < endOff \<and> i < contentLength
      then addIndices (i + 1) endOff contentLength (insert i acc)
      else acc)"
  by pat_completeness auto
termination
  by (relation "measure (\<lambda>(i, endOff, contentLength, acc). endOff - i)") auto

declare addIndices.simps [simp del]

text \<open>
  Lines 61 to 120, which the specification calls \<open>computeSelectedIndices\<close>. The
  arguments are what the callback reads: \<open>document.createTreeWalker\<close>,
  \<open>containerRef.current\<close>, \<open>window.getSelection()\<close> and \<open>content.length\<close>. The
  \<open>catch\<close> of line 113 is the \<open>Inl\<close> branch.
\<close>

definition computeSelectedIndices ::
  "(path \<Rightarrow> walk) \<Rightarrow> path option \<Rightarrow> selection option \<Rightarrow> nat \<Rightarrow> selected" where
  "computeSelectedIndices createTreeWalker containerRef_current getSelection contentLength =
     (case getSelection of
        None \<Rightarrow> \<lparr>newSelectedChars = {}, warned = []\<rparr>
      | Some sel \<Rightarrow>
          (case ranges sel of
             [] \<Rightarrow> \<lparr>newSelectedChars = {}, warned = []\<rparr>
           | rng # _ \<Rightarrow>
               if 0 < length (toString sel) then
                 (case containerRef_current of
                    None \<Rightarrow> \<lparr>newSelectedChars = {}, warned = []\<rparr>
                  | Some root \<Rightarrow>
                      if contains root (commonAncestorContainer rng) then
                        (case walkLoop (createTreeWalker root) rng 0 0 0 of
                           Inl e \<Rightarrow> \<lparr>newSelectedChars = {}, warned = [e]\<rparr>
                         | Inr (startOff, endOff) \<Rightarrow>
                             \<lparr>newSelectedChars = addIndices startOff endOff contentLength {},
                              warned = []\<rparr>)
                      else \<lparr>newSelectedChars = {}, warned = []\<rparr>)
               else \<lparr>newSelectedChars = {}, warned = []\<rparr>))"

subsection \<open>The callback as a step of the page\<close>

text \<open>
  The state the callback runs in: the document, the selection (what
  \<open>window.getSelection()\<close> gives), the container (\<open>containerRef.current\<close>, the
  specification's \<open>root\<close>), what \<open>console.warn\<close> has printed, and the component's
  state \<open>selectedChars\<close>.
\<close>

record page =
  pg_document :: node
  pg_selection :: "selection option"
  pg_container :: "path option"
  pg_console :: "error list"
  pg_selectedChars :: "nat set"

text \<open>
  The platform calls the callback makes, each with the page it leaves behind. The
  reads leave the page as it is; \<open>console.warn\<close> and \<open>setSelectedChars\<close> write.
  \<open>createTreeWalker\<close> is the platform's walker over a document, a parameter so that
  it may throw.
\<close>

definition window_getSelection :: "page \<Rightarrow> selection option \<times> page" where
  "window_getSelection pg = (pg_selection pg, pg)"

definition containerRef_current :: "page \<Rightarrow> path option \<times> page" where
  "containerRef_current pg = (pg_container pg, pg)"

definition node_contains :: "path \<Rightarrow> path \<Rightarrow> page \<Rightarrow> bool \<times> page" where
  "node_contains n other pg = (contains n other, pg)"

definition document_createTreeWalker ::
  "(node \<Rightarrow> path \<Rightarrow> walk) \<Rightarrow> path \<Rightarrow> page \<Rightarrow> walk \<times> page" where
  "document_createTreeWalker createTreeWalker root pg = (createTreeWalker (pg_document pg) root, pg)"

definition console_warn :: "error \<Rightarrow> page \<Rightarrow> page" where
  "console_warn e pg = pg\<lparr>pg_console := pg_console pg @ [e]\<rparr>"

definition setSelectedChars :: "nat set \<Rightarrow> page \<Rightarrow> page" where
  "setSelectedChars chars pg = pg\<lparr>pg_selectedChars := chars\<rparr>"

text \<open>
  Lines 61 to 120 once more, now with the page passed from call to call: the page the
  callback leaves behind.
\<close>

definition selectionCallback :: "(node \<Rightarrow> path \<Rightarrow> walk) \<Rightarrow> nat \<Rightarrow> page \<Rightarrow> page" where
  "selectionCallback createTreeWalker contentLength pg =
     (let (selection, pg) = window_getSelection pg;
          (newSelectedChars, pg) =
            (case selection of
               None \<Rightarrow> ({}, pg)
             | Some sel \<Rightarrow>
                 (case ranges sel of
                    [] \<Rightarrow> ({}, pg)
                  | rng # _ \<Rightarrow>
                      if 0 < length (toString sel) then
                        (let (current, pg) = containerRef_current pg in
                         case current of
                           None \<Rightarrow> ({}, pg)
                         | Some root \<Rightarrow>
                             (let (inside, pg) =
                                    node_contains root (commonAncestorContainer rng) pg
                              in if inside then
                                   (let (walker, pg) =
                                          document_createTreeWalker createTreeWalker root pg
                                    in case walkLoop walker rng 0 0 0 of
                                         Inl e \<Rightarrow> ({}, console_warn e pg)
                                       | Inr (startOff, endOff) \<Rightarrow>
                                           (addIndices startOff endOff contentLength {}, pg))
                                 else ({}, pg)))
                      else ({}, pg)))
      in setSelectedChars newSelectedChars pg)"

subsection \<open>The specification's words\<close>

text \<open>
  The running offset at the leaf \<open>p\<close>: the total length of the text of the leaves
  before \<open>p\<close> in document order.
\<close>

definition offsetBefore :: "(path \<times> jsstring) list \<Rightarrow> path \<Rightarrow> nat" where
  "offsetBefore leaves p = sum_list (map (length \<circ> snd) (takeWhile (\<lambda>l. fst l \<noteq> p) leaves))"

text \<open>The leaves up to and including the leaf \<open>p\<close>, as a walker returns them.\<close>

fun upTo :: "path \<Rightarrow> (path \<times> jsstring) list \<Rightarrow> (path \<times> jsstring option) list" where
  "upTo p [] = []"
| "upTo p ((q, s) # ls) = (if q = p then [(q, Some s)] else (q, Some s) # upTo p ls)"

section \<open>Concrete inputs\<close>

text \<open>
  A platform whose digest is known at one input, the SHA-256 test vector of the message
  \<open>abc\<close>, and rejects everywhere else; its encoder is right on ASCII.
\<close>

definition abcDigest :: "byte list" where
  "abcDigest = [0xba, 0x78, 0x16, 0xbf, 0x8f, 0x01, 0xcf, 0xea, 0x41, 0x41, 0x40, 0xde,
             0x5d, 0xae, 0x22, 0x23, 0xb0, 0x03, 0x61, 0xa3, 0x96, 0x17, 0x7a, 0x9c,
             0xb4, 0x10, 0xff, 0x61, 0xf2, 0x00, 0x15, 0xad]"

definition sha256_vectors :: "byte list \<Rightarrow> error + byte list" where
  "sha256_vectors bs = (if bs = [0x61, 0x62, 0x63] then Inr abcDigest else Inl OperationError)"

definition testPlatform :: platform where
  "testPlatform = \<lparr>subtle_digest = sha256_vectors, text_encode = map ucast\<rparr>"

definition abcEtag :: string where
  "abcEtag = CHR 0x22 #
     ''ba7816bf8f01cfea414140de5dae2223b00361a396177a9cb410ff61f20015ad'' @ [CHR 0x22]"

definition abcBody :: body_stream where
  "abcBody = \<lparr>chunks = [[0x61], [0x62, 0x63]], failure = None, disturbed = False\<rparr>"

definition abcResponse :: response where
  "abcResponse =
     \<lparr>status = 200, statusText = ''OK'',
      headers = [''content-type'' \<mapsto> ''text/plain''],
      body = Some abcBody\<rparr>"

definition plainRequest :: api_context where
  "plainRequest = \<lparr>request = \<lparr>req_headers = Map.empty\<rparr>\<rparr>"

definition conditionalRequest :: "string \<Rightarrow> api_context" where
  "conditionalRequest v = \<lparr>request = \<lparr>req_headers = [''if-none-match'' \<mapsto> v]\<rparr>\<rparr>"


definition v1 :: string where
  "v1 = CHR 0x22 # ''v1'' @ [CHR 0x22]"

definition taggedResponse :: response where
  "taggedResponse =
     \<lparr>status = 200, statusText = ''OK'',
      headers = [''etag'' \<mapsto> v1, ''content-type'' \<mapsto> ''text/html''],
      body = Some abcBody\<rparr>"

definition noContentResponse :: response where
  "noContentResponse =
     \<lparr>status = 204, statusText = ''No Content'', headers = [''etag'' \<mapsto> v1], body = None\<rparr>"

definition bareNoContentResponse :: response where
  "bareNoContentResponse =
     \<lparr>status = 204, statusText = ''No Content'', headers = Map.empty, body = None\<rparr>"

definition brokenResponse :: response where
  "brokenResponse =
     \<lparr>status = 200, statusText = ''OK'', headers = Map.empty,
      body = Some \<lparr>chunks = [[0x61]], failure = Some StreamError, disturbed = False\<rparr>\<rparr>"

definition usedResponse :: response where
  "usedResponse =
     \<lparr>status = 200, statusText = ''OK'', headers = Map.empty,
      body = Some \<lparr>chunks = [[0x61]], failure = None, disturbed = True\<rparr>\<rparr>"

definition proxiedResponse :: response where
  "proxiedResponse =
     \<lparr>status = 999, statusText = ''Request Denied'',
      headers = [''content-type'' \<mapsto> ''text/plain''],
      body = Some abcBody\<rparr>"

definition unhashableResponse :: response where
  "unhashableResponse =
     \<lparr>status = 200, statusText = ''OK'', headers = Map.empty,
      body = Some \<lparr>chunks = [[0x61]], failure = None, disturbed = False\<rparr>\<rparr>"

text \<open>
  The document of the scenario \<open>content = "AB"\<close>, one \<open>span\<close> for each character
  under the container, and a document whose leaves have two, three and two characters,
  with a paragraph beside the container.
\<close>

definition abDocument :: node where
  "abDocument = Element [Element [Element [Text [0x41]], Element [Text [0x42]]]]"

definition abRange :: range where
  "abRange = \<lparr>startContainer = [0, 0, 0], startOffset = 0,
              endContainer = [0, 0, 0], endOffset = 1\<rparr>"

definition abSelection :: selection where
  "abSelection = \<lparr>ranges = [abRange], toString = [0x41]\<rparr>"

definition helloDocument :: node where
  "helloDocument =
     Element [Element [Text [0x68, 0x65], Element [Text [0x6c, 0x6c, 0x6f]], Text [0x21, 0x21]],
              Element [Text [0x7a]]]"

definition ellRange :: range where
  "ellRange = \<lparr>startContainer = [0, 0], startOffset = 1,
               endContainer = [0, 1, 0], endOffset = 2\<rparr>"

definition ellSelection :: selection where
  "ellSelection = \<lparr>ranges = [ellRange], toString = [0x65, 0x6c, 0x6c]\<rparr>"

definition caretRange :: range where
  "caretRange = \<lparr>startContainer = [0, 1, 0], startOffset = 2,
                 endContainer = [0, 1, 0], endOffset = 2\<rparr>"

definition outsideRange :: range where
  "outsideRange = \<lparr>startContainer = [0, 1, 0], startOffset = 0,
                   endContainer = [1, 0], endOffset = 1\<rparr>"

definition caretSelection :: selection where
  "caretSelection = \<lparr>ranges = [caretRange], toString = []\<rparr>"

definition outsideSelection :: selection where
  "outsideSelection = \<lparr>ranges = [outsideRange], toString = [0x6c, 0x6c, 0x6f, 0x21, 0x21, 0x7a]\<rparr>"

text \<open>
  The second document with the selection from \<open>e\<close> to the second \<open>l\<close>, three
  characters highlighted and nothing logged so far.
\<close>

definition helloPage :: page where
  "helloPage =
     \<lparr>pg_document = helloDocument, pg_selection = Some ellSelection, pg_container = Some [0],
      pg_console = [], pg_selectedChars = {1, 2, 3}\<rparr>"

section \<open>Properties of the middleware\<close>

lemma lower_names:
  "toLowerCase ''ETag'' = ''etag''"
  "toLowerCase ''etag'' = ''etag''"
  "toLowerCase ''Cache-Control'' = ''cache-control''"
  "toLowerCase ''if-none-match'' = ''if-none-match''"
  by (simp_all add: toLowerCase_def lowerChar_def)


lemma toString16_small: "n < 16 \<Longrightarrow> toString16 n = [hexDigit n]"
  by (simp add: toString16.simps)

lemma toString16_byte:
  "16 \<le> n \<Longrightarrow> n < 256 \<Longrightarrow> toString16 n = [hexDigit (n div 16), hexDigit (n mod 16)]"
  by (subst toString16.simps) (simp add: toString16_small)





lemma new_Response_304:
  "new_Response None 304 txt hs = Inr \<lparr>status = 304, statusText = txt, headers = hs, body = None\<rparr>"
  by (simp add: new_Response_def)

lemma new_Response_body:
  "200 \<le> st \<and> st \<le> 599 \<and> \<not> nullBodyStatus st \<Longrightarrow>
     new_Response (Some buf) st txt hs =
       Inr \<lparr>status = st, statusText = txt, headers = hs,
            body = Some \<lparr>chunks = [buf], failure = None, disturbed = False\<rparr>\<rparr>"
  by (auto simp: new_Response_def)


lemma onRequest_computed:
  assumes "\<not> truthy (headers_get (headers response) ''etag'')"
    and "body response = Some b" and "\<not> disturbed b" and "failure b = None"
    and "subtle_digest P (concat (chunks b)) = Inr d"
  shows "onRequest P ctx (Inr response) =
     (let etag = CHR 0x22 # concat (map (\<lambda>b. padStart 2 ''0'' (toString16 (unat b))) d)
                   @ [CHR 0x22];
          hs = (headers response)(''etag'' \<mapsto> etag, ''cache-control'' \<mapsto> cacheControl)
      in if headers_get (req_headers (request ctx)) ''if-none-match'' = Some etag
         then \<lparr>returned = new_Response None 304 [] hs,
               digested = [concat (chunks b)]\<rparr>
         else \<lparr>returned = new_Response (Some (concat (chunks b))) (status response)
                          (statusText response) hs,
               digested = [concat (chunks b)]\<rparr>)"
  using assms
  by (auto simp: onRequest_def Let_def clone_def arrayBuffer_def digest_def headers_set_def
      lower_names)




lemma abc_hex:
  "CHR 0x22 # concat (map (\<lambda>b. padStart 2 ''0'' (toString16 (unat b))) abcDigest)
     @ [CHR 0x22] = abcEtag"
  by (simp add: abcDigest_def abcEtag_def padStart_def toString16_small toString16_byte
      hexDigit_def)

lemma abc_computed:
  "\<not> truthy (headers_get (headers abcResponse) ''etag'')"
  "body abcResponse = Some abcBody" "\<not> disturbed abcBody" "failure abcBody = None"
  "subtle_digest testPlatform (concat (chunks abcBody)) = Inr abcDigest"
  by (simp_all add: abcResponse_def abcBody_def headers_get_def lower_names testPlatform_def
      sha256_vectors_def)



text \<open>
  C3. A response that carries a validator of its producer (an \<open>ETag\<close> header with a
  non-empty value): when the request's \<open>If-None-Match\<close> equals it, the middleware
  returns status 304 with no body and that validator, and hashes nothing; otherwise it
  returns the producer's response itself, and hashes nothing.
\<close>

theorem producer_validator:
  assumes "headers_get (headers response) ''etag'' = Some v" and "v \<noteq> []"
  shows "onRequest P ctx (Inr response) =
     (if headers_get (req_headers (request ctx)) ''if-none-match'' = Some v
      then \<lparr>returned = Inr \<lparr>status = 304, statusText = [],
                              headers = [''etag'' \<mapsto> v, ''cache-control'' \<mapsto>
                                 ''public, max-age=31536000, must-revalidate''],
                              body = None\<rparr>,
            digested = []\<rparr>
      else \<lparr>returned = Inr response, digested = []\<rparr>)"
  using assms
  by (simp add: onRequest_def Let_def new_Response_def new_Headers_def headers_set_def
      lower_names cacheControl_def)

text \<open>
  The producer's \<open>ETag: "v1"\<close> against \<open>If-None-Match: "v1"\<close>, against another
  validator, and against no \<open>If-None-Match\<close> at all.
\<close>

theorem producer_validator_witness:
  "onRequest testPlatform (conditionalRequest v1) (Inr taggedResponse) =
     \<lparr>returned = Inr \<lparr>status = 304, statusText = [],
                       headers = [''etag'' \<mapsto> v1, ''cache-control'' \<mapsto>
                          ''public, max-age=31536000, must-revalidate''],
                       body = None\<rparr>,
      digested = []\<rparr>
   \<and> onRequest testPlatform (conditionalRequest abcEtag) (Inr taggedResponse) =
     \<lparr>returned = Inr taggedResponse, digested = []\<rparr>
   \<and> onRequest testPlatform plainRequest (Inr taggedResponse) =
     \<lparr>returned = Inr taggedResponse, digested = []\<rparr>"
proof -
  have e: "headers_get (headers taggedResponse) ''etag'' = Some v1" "v1 \<noteq> []"
    by (simp_all add: taggedResponse_def headers_get_def lower_names v1_def)
  have "v1 \<noteq> abcEtag" by (simp add: v1_def abcEtag_def)
  with producer_validator [OF e, of testPlatform "conditionalRequest v1"]
    producer_validator [OF e, of testPlatform "conditionalRequest abcEtag"]
    producer_validator [OF e, of testPlatform plainRequest]
  show ?thesis
    by (simp add: conditionalRequest_def plainRequest_def headers_get_def lower_names)
qed

text \<open>
  For a status that the \<open>Response\<close> constructor takes with a body, the response that
  lines 58 to 69 build is the one their comments describe: the status and status text of
  the original, the drained bytes as body, and the original headers with \<open>ETag\<close> and
  \<open>Cache-Control\<close> set.
\<close>

lemma tagged_response_in_range:
  assumes "\<not> truthy (headers_get (headers response) ''etag'')"
    and "body response = Some b" and "\<not> disturbed b" and "failure b = None"
    and "subtle_digest P (concat (chunks b)) = Inr d"
    and "headers_get (req_headers (request ctx)) ''if-none-match'' \<noteq>
           Some (CHR 0x22 # concat (map (\<lambda>b. padStart 2 ''0'' (toString16 (unat b))) d)
                   @ [CHR 0x22])"
    and "200 \<le> status response \<and> status response \<le> 599
         \<and> \<not> nullBodyStatus (status response)"
  shows "returned (onRequest P ctx (Inr response)) =
     Inr \<lparr>status = status response, statusText = statusText response,
          headers = (headers response)
            (''etag'' \<mapsto> CHR 0x22 #
                 concat (map (\<lambda>b. padStart 2 ''0'' (toString16 (unat b))) d) @ [CHR 0x22],
             ''cache-control'' \<mapsto> ''public, max-age=31536000, must-revalidate''),
          body = Some \<lparr>chunks = [concat (chunks b)], failure = None, disturbed = False\<rparr>\<rparr>"
  using assms(6)
  by (simp add: onRequest_computed [OF assms(1-5)] Let_def new_Response_body [OF assms(7)]
      cacheControl_def)

text \<open>
  C4 fails on the code. A producer's response with a body and status 999 (a status a
  proxied upstream may send), no validator, and an unconditional request: the digest is
  taken, and then \<open>new Response(buf, {status: response.status, ...})\<close> of line 65
  throws a \<open>RangeError\<close>, so the middleware returns no response at all, where the
  claim, and the comment of lines 63 and 64, say a response with the same status and body.
\<close>

theorem tagged_response_status_999:
  "\<not> truthy (headers_get (headers proxiedResponse) ''etag'')
   \<and> body proxiedResponse = Some abcBody
   \<and> headers_get (req_headers (request plainRequest)) ''if-none-match'' = None
   \<and> onRequest testPlatform plainRequest (Inr proxiedResponse)
        = \<lparr>returned = Inl RangeError, digested = [[0x61, 0x62, 0x63]]\<rparr>"
proof -
  have e: "\<not> truthy (headers_get (headers proxiedResponse) ''etag'')"
    by (simp add: proxiedResponse_def headers_get_def lower_names)
  have b: "body proxiedResponse = Some abcBody" by (simp add: proxiedResponse_def)
  have i: "headers_get (req_headers (request plainRequest)) ''if-none-match'' = None"
    by (simp add: plainRequest_def headers_get_def)
  have "onRequest testPlatform plainRequest (Inr proxiedResponse)
        = \<lparr>returned = Inl RangeError, digested = [[0x61, 0x62, 0x63]]\<rparr>"
    unfolding onRequest_computed [OF e b abc_computed(3-5)]
    by (simp add: Let_def i new_Response_def proxiedResponse_def abcBody_def)
  with e b i show ?thesis by simp
qed

text \<open>
  C5 fails on the code. The producer's 200 response with body \<open>abc\<close> and a
  \<open>Content-Type\<close> header, and a request whose \<open>If-None-Match\<close> is the computed
  validator: the 304 that line 55 returns still carries the producer's
  \<open>Content-Type\<close>, because line 51 starts from \<open>new Headers(response.headers)\<close>,
  where the other 304 of the middleware (line 25) starts from \<open>new Headers()\<close> and has
  exactly the two headers of the claim.
\<close>

theorem computed_not_modified_keeps_headers:
  "onRequest testPlatform (conditionalRequest abcEtag) (Inr abcResponse) =
     \<lparr>returned = Inr \<lparr>status = 304, statusText = [],
                       headers = [''content-type'' \<mapsto> ''text/plain'', ''etag'' \<mapsto> abcEtag,
                          ''cache-control'' \<mapsto> ''public, max-age=31536000, must-revalidate''],
                       body = None\<rparr>,
      digested = [[0x61, 0x62, 0x63]]\<rparr>
   \<and> headers_get [''content-type'' \<mapsto> ''text/plain'', ''etag'' \<mapsto> abcEtag,
         ''cache-control'' \<mapsto> ''public, max-age=31536000, must-revalidate''] ''Content-Type''
       = Some ''text/plain''"
proof -
  show ?thesis
    unfolding onRequest_computed [OF abc_computed] abc_hex
    by (simp add: Let_def new_Response_304 abcResponse_def abcBody_def cacheControl_def
        conditionalRequest_def headers_get_def toLowerCase_def lowerChar_def)
qed

text \<open>
  C6 as stated fails for a response without a body that carries a validator of its
  producer which the request repeats: the 204 is answered with a new 304 that has a
  \<open>Cache-Control\<close> header the producer never set.
\<close>

theorem bodiless_counterexample:
  "body noContentResponse = None
   \<and> returned (onRequest testPlatform (conditionalRequest v1) (Inr noContentResponse))
        \<noteq> Inr noContentResponse
   \<and> status (projr (returned (onRequest testPlatform (conditionalRequest v1)
        (Inr noContentResponse)))) = 304
   \<and> headers_get (headers noContentResponse) ''Cache-Control'' = None
   \<and> headers_get (headers (projr (returned (onRequest testPlatform (conditionalRequest v1)
        (Inr noContentResponse))))) ''Cache-Control''
        = Some ''public, max-age=31536000, must-revalidate''"
  by (simp add: onRequest_def Let_def noContentResponse_def conditionalRequest_def
      headers_get_def headers_set_def lower_names v1_def new_Response_def new_Headers_def
      cacheControl_def)

text \<open>
  C6, amended. A response without a body is returned as it is, with nothing hashed,
  unless it carries a validator of its producer that equals the request's
  \<open>If-None-Match\<close>.
\<close>

theorem bodiless_passthrough:
  assumes "body response = None"
    and "\<not> (truthy (headers_get (headers response) ''etag'')
            \<and> headers_get (req_headers (request ctx)) ''if-none-match''
                = headers_get (headers response) ''etag'')"
  shows "onRequest P ctx (Inr response) = \<lparr>returned = Inr response, digested = []\<rparr>"
  using assms by (auto simp: onRequest_def Let_def)

text \<open>
  A 204 without validator under a conditional request, and a 204 with a validator under
  an unconditional one.
\<close>

theorem bodiless_passthrough_witness:
  "onRequest testPlatform (conditionalRequest v1) (Inr bareNoContentResponse) =
     \<lparr>returned = Inr bareNoContentResponse, digested = []\<rparr>
   \<and> onRequest testPlatform plainRequest (Inr noContentResponse) =
     \<lparr>returned = Inr noContentResponse, digested = []\<rparr>"
proof -
  have b: "body bareNoContentResponse = None" "body noContentResponse = None"
    by (simp_all add: bareNoContentResponse_def noContentResponse_def)
  have n1: "\<not> (truthy (headers_get (headers bareNoContentResponse) ''etag'')
            \<and> headers_get (req_headers (request (conditionalRequest v1))) ''if-none-match''
                = headers_get (headers bareNoContentResponse) ''etag'')"
    by (simp add: bareNoContentResponse_def headers_get_def)
  have n2: "\<not> (truthy (headers_get (headers noContentResponse) ''etag'')
            \<and> headers_get (req_headers (request plainRequest)) ''if-none-match''
                = headers_get (headers noContentResponse) ''etag'')"
    by (simp add: noContentResponse_def plainRequest_def headers_get_def lower_names)
  from bodiless_passthrough [OF b(1) n1, of testPlatform]
    bodiless_passthrough [OF b(2) n2, of testPlatform]
  show ?thesis by simp
qed

text \<open>
  C9 as stated fails: a body whose stream errors makes the middleware fail with that
  error; the producer's response is not returned.
\<close>

theorem hash_failure_counterexample:
  "headers_get (headers brokenResponse) ''ETag'' = None
   \<and> arrayBuffer brokenResponse = Inl StreamError
   \<and> returned (onRequest testPlatform plainRequest (Inr brokenResponse)) = Inl StreamError
   \<and> returned (onRequest testPlatform plainRequest (Inr brokenResponse)) \<noteq> Inr brokenResponse"
  by (simp add: onRequest_def Let_def brokenResponse_def headers_get_def lower_names
      clone_def arrayBuffer_def)

text \<open>
  C9, amended. For a response with a body and no validator of its producer, a failure
  of \<open>clone\<close>, of \<open>arrayBuffer\<close> or of \<open>digest\<close> is the result of the middleware:
  there is no recovery, and no response is returned.
\<close>

theorem hash_failure_propagates:
  assumes "\<not> truthy (headers_get (headers response) ''etag'')" and "body response = Some b"
  shows "(disturbed b \<longrightarrow> onRequest P ctx (Inr response)
             = \<lparr>returned = Inl TypeError, digested = []\<rparr>)
       \<and> (\<not> disturbed b \<and> failure b = Some e \<longrightarrow> onRequest P ctx (Inr response)
             = \<lparr>returned = Inl e, digested = []\<rparr>)
       \<and> (\<not> disturbed b \<and> failure b = None \<and> subtle_digest P (concat (chunks b)) = Inl e
            \<longrightarrow> onRequest P ctx (Inr response)
             = \<lparr>returned = Inl e, digested = [concat (chunks b)]\<rparr>)"
  using assms
  by (simp add: onRequest_def Let_def clone_def arrayBuffer_def digest_def)

text \<open>A body already read, a body whose stream errors, and a digest that rejects.\<close>

theorem hash_failure_propagates_witness:
  "onRequest testPlatform plainRequest (Inr usedResponse)
     = \<lparr>returned = Inl TypeError, digested = []\<rparr>
   \<and> onRequest testPlatform plainRequest (Inr brokenResponse)
     = \<lparr>returned = Inl StreamError, digested = []\<rparr>
   \<and> onRequest testPlatform plainRequest (Inr unhashableResponse)
     = \<lparr>returned = Inl OperationError, digested = [[0x61]]\<rparr>"
proof -
  let ?u = "\<lparr>chunks = [[0x61 :: byte]], failure = None, disturbed = True\<rparr>"
  let ?b = "\<lparr>chunks = [[0x61 :: byte]], failure = Some StreamError, disturbed = False\<rparr>"
  let ?h = "\<lparr>chunks = [[0x61 :: byte]], failure = None, disturbed = False\<rparr>"
  have e: "\<not> truthy (headers_get (headers usedResponse) ''etag'')"
    "\<not> truthy (headers_get (headers brokenResponse) ''etag'')"
    "\<not> truthy (headers_get (headers unhashableResponse) ''etag'')"
    by (simp_all add: usedResponse_def brokenResponse_def unhashableResponse_def headers_get_def)
  have b: "body usedResponse = Some ?u" "body brokenResponse = Some ?b"
    "body unhashableResponse = Some ?h"
    by (simp_all add: usedResponse_def brokenResponse_def unhashableResponse_def)
  have d: "subtle_digest testPlatform (concat (chunks ?h)) = Inl OperationError"
    by (simp add: testPlatform_def sha256_vectors_def)
  from hash_failure_propagates [OF e(1) b(1), where P = testPlatform and ctx = plainRequest]
    hash_failure_propagates [OF e(2) b(2), where P = testPlatform and ctx = plainRequest
      and e = StreamError]
    hash_failure_propagates [OF e(3) b(3), where P = testPlatform and ctx = plainRequest
      and e = OperationError] d
  show ?thesis by simp
qed



section \<open>Properties of the selection indexer\<close>

lemma addIndices_eq:
  "addIndices i e n acc = acc \<union> {k. i \<le> k \<and> k < min e n}"
proof (induction i e n acc rule: addIndices.induct)
  case (1 i e n acc)
  show ?case
  proof (cases "i < e \<and> i < n")
    case True
    have "addIndices i e n acc = addIndices (i + 1) e n (insert i acc)"
      using True addIndices.simps [of i e n acc] by simp
    also have "\<dots> = insert i acc \<union> {k. i + 1 \<le> k \<and> k < min e n}"
      using True by (intro "1.IH") simp
    also have "\<dots> = acc \<union> {k. i \<le> k \<and> k < min e n}"
      using True by auto
    finally show ?thesis .
  next
    case False
    have "addIndices i e n acc = acc"
      using False addIndices.simps [of i e n acc] by auto
    moreover from False have "{k. i \<le> k \<and> k < min e n} = {}" by auto
    ultimately show ?thesis by (simp only: Un_empty_right)
  qed
qed

lemma textNodes_prefix:
  "q \<in> fst ` set (textNodes p c) \<Longrightarrow> prefix p q"
  "q \<in> fst ` set (textNodesOf p i cs) \<Longrightarrow> \<exists>j\<ge>i. prefix (p @ [j]) q"
proof (induction p c and p i cs arbitrary: q and q rule: textNodes_textNodesOf.induct)
  case (1 p s)
  then show ?case by simp
next
  case (2 p cs)
  from "2.prems" have "q \<in> fst ` set (textNodesOf p 0 cs)" by simp
  from "2.IH" [OF this] obtain j where "prefix (p @ [j]) q" by blast
  then show ?case by (rule append_prefixD)
next
  case (3 p i)
  then show ?case by simp
next
  case (4 p i c cs)
  from "4.prems" consider (here) "q \<in> fst ` set (textNodes (p @ [i]) c)"
    | (later) "q \<in> fst ` set (textNodesOf p (Suc i) cs)" by auto
  then show ?case
  proof cases
    case here
    from "4.IH"(1) [OF this] show ?thesis by blast
  next
    case later
    from "4.IH"(2) [OF this] obtain j where "Suc i \<le> j" "prefix (p @ [j]) q" by blast
    then show ?thesis by (intro exI [of _ j]) simp
  qed
qed

lemma prefix_snoc_same:
  assumes "prefix (p @ [i]) q" and "prefix (p @ [j]) q"
  shows "i = j"
proof -
  from assms obtain r s where "q = p @ [i] @ r" "q = p @ [j] @ s"
    by (auto simp: prefix_def)
  then show ?thesis by simp
qed

lemma textNodes_distinct:
  "distinct (map fst (textNodes p c))"
  "distinct (map fst (textNodesOf p i cs))"
proof (induction p c and p i cs rule: textNodes_textNodesOf.induct)
  case (4 p i c cs)
  have "fst ` set (textNodes (p @ [i]) c) \<inter> fst ` set (textNodesOf p (Suc i) cs) = {}"
  proof (rule ccontr)
    assume "\<not> ?thesis"
    then obtain q where a: "q \<in> fst ` set (textNodes (p @ [i]) c)"
      and b: "q \<in> fst ` set (textNodesOf p (Suc i) cs)" by blast
    from textNodes_prefix(1) [OF a] have pi: "prefix (p @ [i]) q" .
    from textNodes_prefix(2) [OF b] obtain j where j: "Suc i \<le> j" and pj: "prefix (p @ [j]) q"
      by blast
    from prefix_snoc_same [OF pi pj] j show False by simp
  qed
  with 4 show ?case by simp
qed simp_all

lemma offsetBefore_Nil: "offsetBefore [] p = 0"
  by (simp add: offsetBefore_def)

lemma offsetBefore_Cons:
  "offsetBefore ((q, s) # L) p = (if q = p then 0 else length s + offsetBefore L p)"
  by (simp add: offsetBefore_def)

lemma walkLoop_leaves:
  assumes "distinct (map fst L)" and "endContainer r \<in> fst ` set L"
  shows "walkLoop (walkOf L) r cur so eo =
     Inr (if startContainer r = endContainer r
             \<or> startContainer r \<in> fst ` set (takeWhile (\<lambda>l. fst l \<noteq> endContainer r) L)
          then cur + offsetBefore L (startContainer r) + startOffset r else so,
          cur + offsetBefore L (endContainer r) + endOffset r)"
  using assms
proof (induction L arbitrary: cur so)
  case Nil
  then show ?case by simp
next
  case (Cons l L)
  obtain q s where l: "l = (q, s)" by (cases l)
  show ?case
  proof (cases "q = endContainer r")
    case True
    then show ?thesis by (simp add: l offsetBefore_Cons Let_def)
  next
    case False
    with Cons.prems l have d: "distinct (map fst L)" and m: "endContainer r \<in> fst ` set L"
      and nq: "q \<notin> fst ` set L"
      by auto
    let ?so = "if q = startContainer r then cur + startOffset r else so"
    have step: "walkLoop (walkOf (l # L)) r cur so eo = walkLoop (walkOf L) r (cur + length s) ?so eo"
      using False by (simp add: l Let_def)
    note ih = Cons.IH [OF d m, of "cur + length s" ?so]
    show ?thesis
    proof (cases "q = startContainer r")
      case True
      have "set (takeWhile (\<lambda>l. fst l \<noteq> endContainer r) L) \<subseteq> set L"
        by (rule set_takeWhileD [THEN conjunct1, THEN subsetI])
      with nq True
      have "startContainer r \<notin> fst ` set (takeWhile (\<lambda>l. fst l \<noteq> endContainer r) L)"
        by blast
      with True False show ?thesis
        unfolding step ih by (simp add: l offsetBefore_Cons)
    next
      case ns: False
      with False show ?thesis
        unfolding step ih by (auto simp: l offsetBefore_Cons)
    qed
  qed
qed

lemma textLeaves_prefix: "q \<in> fst ` set (textLeaves doc root) \<Longrightarrow> prefix root q"
proof -
  assume a: "q \<in> fst ` set (textLeaves doc root)"
  then obtain cs where "q \<in> fst ` set (textNodesOf root 0 cs)"
    by (auto simp: textLeaves_def split: option.splits node.splits)
  from textNodes_prefix(2) [OF this] obtain j where "prefix (root @ [j]) q" by blast
  then show ?thesis by (rule append_prefixD)
qed

lemma textLeaves_distinct: "distinct (map fst (textLeaves doc root))"
  by (simp add: textLeaves_def textNodes_distinct split: option.splits node.splits)

lemma walkLoop_throws:
  "endContainer r \<notin> fst ` set ns \<Longrightarrow> walkLoop (walkThen ns (Throw e)) r cur so eo = Inl e"
proof (induction ns arbitrary: cur so)
  case Nil
  show ?case by simp
next
  case (Cons n ns)
  obtain p t where n: "n = (p, t)" by (cases n)
  with Cons.prems have "p \<noteq> endContainer r" "endContainer r \<notin> fst ` set ns" by auto
  with Cons.IH show ?case by (simp add: n Let_def)
qed

lemma walkLoop_collapsed:
  assumes "startContainer r = endContainer r" and "startOffset r = endOffset r"
    and "walkLoop w r cur so so = Inr (s, e)"
  shows "s = e"
  using assms(3)
proof (induction w arbitrary: cur)
  case Done
  then show ?case by simp
next
  case (Next p t w)
  show ?case
  proof (cases "p = endContainer r")
    case True
    with Next.prems assms(1,2) show ?thesis by (simp add: Let_def)
  next
    case False
    with Next.prems assms(1) have "walkLoop w r (cur + (case t of None \<Rightarrow> 0 | Some s \<Rightarrow> length s)) so so = Inr (s, e)"
      by (simp add: Let_def)
    then show ?thesis by (rule Next.IH)
  qed
next
  case (Throw x)
  then show ?case by simp
qed

lemma walkLoop_upTo:
  "endContainer r \<in> fst ` set L \<Longrightarrow>
     walkLoop (walkThen (upTo (endContainer r) L) rest) r cur so eo
       = walkLoop (walkOf L) r cur so eo"
proof (induction L arbitrary: cur so)
  case Nil
  then show ?case by simp
next
  case (Cons l L)
  obtain q s where l: "l = (q, s)" by (cases l)
  show ?case
  proof (cases "q = endContainer r")
    case True
    then show ?thesis by (simp add: l Let_def)
  next
    case False
    with Cons.prems l have "endContainer r \<in> fst ` set L" by auto
    from Cons.IH [OF this] False show ?thesis by (simp add: l Let_def)
  qed
qed

text \<open>
  C1. A selection with a range and a non-empty string, whose start and end containers are
  text leaves under \<open>root\<close>, the start leaf not after the end leaf in document order
  (as the boundary points of a range are): the callback selects exactly the indices
  \<open>i\<close> with \<open>startOffset \<le> i < min endOffset contentLength\<close>, where \<open>startOffset\<close>
  is the running offset at the start leaf plus the start's offset within its leaf, and
  \<open>endOffset\<close> the running offset at the end leaf plus the end's offset within its
  leaf, whatever the lengths of the leaves; nothing is logged. The walk stops at the end
  leaf: whatever a walker does after returning it makes no difference.
\<close>

theorem selection_indices:
  assumes "ranges sel = r # rs" and "toString sel \<noteq> []"
    and "startContainer r \<in> fst ` set (textLeaves doc root)"
    and "endContainer r \<in> fst ` set (textLeaves doc root)"
    and "startContainer r = endContainer r
         \<or> startContainer r \<in> fst ` set (takeWhile (\<lambda>l. fst l \<noteq> endContainer r)
                                          (textLeaves doc root))"
  shows "computeSelectedIndices (treeWalker doc) (Some root) (Some sel) contentLength =
     \<lparr>newSelectedChars =
        {i. offsetBefore (textLeaves doc root) (startContainer r) + startOffset r \<le> i
            \<and> i < min (offsetBefore (textLeaves doc root) (endContainer r) + endOffset r)
                      contentLength},
      warned = []\<rparr>
   \<and> computeSelectedIndices
        (\<lambda>n. walkThen (upTo (endContainer r) (textLeaves doc n)) rest)
        (Some root) (Some sel) contentLength
      = computeSelectedIndices (treeWalker doc) (Some root) (Some sel) contentLength"
proof -
  have "prefix root (longest_common_prefix (startContainer r) (endContainer r))"
    using assms(3,4) by (intro longest_common_prefix_max_prefix textLeaves_prefix)
  then have c: "contains root (commonAncestorContainer r)"
    by (simp add: contains_def commonAncestorContainer_def)
  note w = walkLoop_leaves [OF textLeaves_distinct assms(4), where cur = 0 and so = 0 and eo = 0]
  have one: "computeSelectedIndices (treeWalker doc) (Some root) (Some sel) contentLength =
     \<lparr>newSelectedChars =
        {i. offsetBefore (textLeaves doc root) (startContainer r) + startOffset r \<le> i
            \<and> i < min (offsetBefore (textLeaves doc root) (endContainer r) + endOffset r)
                      contentLength},
      warned = []\<rparr>"
    using assms(1,2,5) c
    by (simp add: computeSelectedIndices_def treeWalker_def w addIndices_eq)
  have two: "computeSelectedIndices
        (\<lambda>n. walkThen (upTo (endContainer r) (textLeaves doc n)) rest)
        (Some root) (Some sel) contentLength
      = computeSelectedIndices (treeWalker doc) (Some root) (Some sel) contentLength"
    using assms(1)
    by (simp add: computeSelectedIndices_def treeWalker_def walkLoop_upTo [OF assms(4)])
  from one two show ?thesis by simp
qed

lemma abLeaves: "textLeaves abDocument [0] = [([0, 0, 0], [0x41]), ([0, 1, 0], [0x42])]"
  by (simp add: textLeaves_def abDocument_def)

lemma helloLeaves:
  "textLeaves helloDocument [0] =
     [([0, 0], [0x68, 0x65]), ([0, 1, 0], [0x6c, 0x6c, 0x6f]), ([0, 2], [0x21, 0x21])]"
  by (simp add: textLeaves_def helloDocument_def)

text \<open>
  The scenario of the specification (\<open>AB\<close>, the selection covers \<open>A\<close>), a selection
  across two longer leaves, the same one clamped by the content length, and a walker
  that throws after the end leaf.
\<close>

theorem selection_indices_witness:
  "computeSelectedIndices (treeWalker abDocument) (Some [0]) (Some abSelection) 2
     = \<lparr>newSelectedChars = {0}, warned = []\<rparr>
   \<and> computeSelectedIndices (treeWalker helloDocument) (Some [0]) (Some ellSelection) 7
     = \<lparr>newSelectedChars = {1, 2, 3}, warned = []\<rparr>
   \<and> computeSelectedIndices (treeWalker helloDocument) (Some [0]) (Some ellSelection) 3
     = \<lparr>newSelectedChars = {1, 2}, warned = []\<rparr>
   \<and> computeSelectedIndices
        (\<lambda>n. Next [0, 0] (Some [0x68, 0x65])
               (Next [0, 1, 0] (Some [0x6c, 0x6c, 0x6f]) (Throw TypeError)))
        (Some [0]) (Some ellSelection) 7
     = \<lparr>newSelectedChars = {1, 2, 3}, warned = []\<rparr>"
proof -
  have a: "ranges abSelection = abRange # []" "toString abSelection \<noteq> []"
    "startContainer abRange \<in> fst ` set (textLeaves abDocument [0])"
    "endContainer abRange \<in> fst ` set (textLeaves abDocument [0])"
    "startContainer abRange = endContainer abRange
         \<or> startContainer abRange \<in> fst ` set (takeWhile (\<lambda>l. fst l \<noteq> endContainer abRange)
                                          (textLeaves abDocument [0]))"
    by (simp_all add: abSelection_def abRange_def abLeaves)
  have h: "ranges ellSelection = ellRange # []" "toString ellSelection \<noteq> []"
    "startContainer ellRange \<in> fst ` set (textLeaves helloDocument [0])"
    "endContainer ellRange \<in> fst ` set (textLeaves helloDocument [0])"
    "startContainer ellRange = endContainer ellRange
         \<or> startContainer ellRange \<in> fst ` set (takeWhile (\<lambda>l. fst l \<noteq> endContainer ellRange)
                                          (textLeaves helloDocument [0]))"
    by (simp_all add: ellSelection_def ellRange_def helloLeaves)
  have s1: "{i. offsetBefore (textLeaves abDocument [0]) (startContainer abRange)
                  + startOffset abRange \<le> i
            \<and> i < min (offsetBefore (textLeaves abDocument [0]) (endContainer abRange)
                         + endOffset abRange) 2} = {0}"
    by (auto simp: abLeaves abRange_def offsetBefore_def)
  have s2: "{i. offsetBefore (textLeaves helloDocument [0]) (startContainer ellRange)
                  + startOffset ellRange \<le> i
            \<and> i < min (offsetBefore (textLeaves helloDocument [0]) (endContainer ellRange)
                         + endOffset ellRange) 7} = {1, 2, 3}"
    by (auto simp: helloLeaves ellRange_def offsetBefore_def)
  have s3: "{i. offsetBefore (textLeaves helloDocument [0]) (startContainer ellRange)
                  + startOffset ellRange \<le> i
            \<and> i < min (offsetBefore (textLeaves helloDocument [0]) (endContainer ellRange)
                         + endOffset ellRange) 3} = {1, 2}"
    by (auto simp: helloLeaves ellRange_def offsetBefore_def)
  have t: "computeSelectedIndices
        (\<lambda>n. Next [0, 0] (Some [0x68, 0x65])
               (Next [0, 1, 0] (Some [0x6c, 0x6c, 0x6f]) (Throw TypeError)))
        (Some [0]) (Some ellSelection) 7
      = computeSelectedIndices
        (\<lambda>n. walkThen (upTo (endContainer ellRange) (textLeaves helloDocument n))
                  (Throw TypeError))
        (Some [0]) (Some ellSelection) 7"
    by (simp add: computeSelectedIndices_def helloLeaves ellRange_def ellSelection_def)
  from selection_indices [OF a, where contentLength = 2]
    selection_indices [OF h, where contentLength = 7 and rest = "Throw TypeError"]
    selection_indices [OF h, where contentLength = 3]
  show ?thesis unfolding s1 s2 s3 t by simp
qed

text \<open>
  C7. A selection of length zero gives the empty set, and so does a selection whose
  common ancestor container is not contained in \<open>root\<close>; a range whose two boundary
  points are the same gives the empty set whatever the selection's string is.
\<close>

theorem invalid_selection_empty:
  "(toString sel = [] \<longrightarrow>
      computeSelectedIndices W c (Some sel) n = \<lparr>newSelectedChars = {}, warned = []\<rparr>)
   \<and> (ranges sel = r # rs \<and> \<not> contains root (commonAncestorContainer r) \<longrightarrow>
      computeSelectedIndices W (Some root) (Some sel) n = \<lparr>newSelectedChars = {}, warned = []\<rparr>)
   \<and> (ranges sel = r # rs \<and> startContainer r = endContainer r \<and> startOffset r = endOffset r
        \<longrightarrow> newSelectedChars (computeSelectedIndices W c (Some sel) n) = {})"
proof (intro conjI impI)
  assume "toString sel = []"
  then show "computeSelectedIndices W c (Some sel) n = \<lparr>newSelectedChars = {}, warned = []\<rparr>"
    by (simp add: computeSelectedIndices_def split: list.splits)
next
  assume "ranges sel = r # rs \<and> \<not> contains root (commonAncestorContainer r)"
  then show "computeSelectedIndices W (Some root) (Some sel) n
             = \<lparr>newSelectedChars = {}, warned = []\<rparr>"
    by (simp add: computeSelectedIndices_def)
next
  assume a: "ranges sel = r # rs \<and> startContainer r = endContainer r
             \<and> startOffset r = endOffset r"
  show "newSelectedChars (computeSelectedIndices W c (Some sel) n) = {}"
  proof (cases c)
    case None
    with a show ?thesis by (simp add: computeSelectedIndices_def)
  next
    case (Some root)
    show ?thesis
    proof (cases "walkLoop (W root) r 0 0 0")
      case (Inl e)
      with a Some show ?thesis by (simp add: computeSelectedIndices_def)
    next
      case (Inr se)
      obtain s e where se: "se = (s, e)" by (cases se)
      with Inr a have "s = e" by (intro walkLoop_collapsed [of r "W root" 0 0 s e]) simp_all
      with a Some Inr se show ?thesis
        by (simp add: computeSelectedIndices_def addIndices_eq)
    qed
  qed
qed

text \<open>
  A caret inside the second leaf, a selection that ends in the paragraph beside the
  container, and the caret again with a string that is not empty.
\<close>

theorem invalid_selection_empty_witness:
  "computeSelectedIndices (treeWalker helloDocument) (Some [0]) (Some caretSelection) 7
     = \<lparr>newSelectedChars = {}, warned = []\<rparr>
   \<and> computeSelectedIndices (treeWalker helloDocument) (Some [0]) (Some outsideSelection) 7
     = \<lparr>newSelectedChars = {}, warned = []\<rparr>
   \<and> newSelectedChars (computeSelectedIndices (treeWalker helloDocument) (Some [0])
        (Some (caretSelection\<lparr>toString := [0x6c]\<rparr>)) 7) = {}"
proof -
  have 1: "toString caretSelection = []" by (simp add: caretSelection_def)
  have 2: "ranges outsideSelection = outsideRange # []
           \<and> \<not> contains [0] (commonAncestorContainer outsideRange)"
    by (simp add: outsideSelection_def outsideRange_def contains_def commonAncestorContainer_def)
  have 3: "ranges (caretSelection\<lparr>toString := [0x6c]\<rparr>) = caretRange # []
           \<and> startContainer caretRange = endContainer caretRange
           \<and> startOffset caretRange = endOffset caretRange"
    by (simp add: caretSelection_def caretRange_def)
  from invalid_selection_empty [where sel = caretSelection and W = "treeWalker helloDocument"
      and c = "Some [0]" and n = 7] 1
    invalid_selection_empty [where sel = outsideSelection and W = "treeWalker helloDocument"
      and root = "[0]" and n = 7 and r = outsideRange and rs = "[]"] 2
    invalid_selection_empty [where sel = "caretSelection\<lparr>toString := [0x6c]\<rparr>"
      and W = "treeWalker helloDocument" and c = "Some [0]" and n = 7 and r = caretRange
      and rs = "[]"] 3
  show ?thesis by blast
qed

text \<open>
  Every walk on which the loop fails is some nodes, none of them the end container,
  followed by a throw.
\<close>

lemma failing_walk_shape:
  "walkLoop w r cur so eo = Inl e \<Longrightarrow>
     \<exists>ns. w = walkThen ns (Throw e) \<and> endContainer r \<notin> fst ` set ns"
proof (induction w arbitrary: cur so)
  case Done
  then show ?case by simp
next
  case (Next p t w)
  from Next.prems have ne: "p \<noteq> endContainer r"
    by (auto simp: Let_def split: if_splits)
  with Next.prems obtain cur' so' where "walkLoop w r cur' so' eo = Inl e"
    by (auto simp: Let_def split: if_splits)
  from Next.IH [OF this] obtain ns where "w = walkThen ns (Throw e)"
    "endContainer r \<notin> fst ` set ns" by blast
  with ne have "Next p t w = walkThen ((p, t) # ns) (Throw e)
                \<and> endContainer r \<notin> fst ` set ((p, t) # ns)" by simp
  then show ?case by blast
next
  case (Throw x)
  then have "Throw x = walkThen [] (Throw e)
             \<and> endContainer r \<notin> fst ` set ([] :: (path \<times> jsstring option) list)"
    by simp
  then show ?case by blast
qed

text \<open>
  The page the callback leaves behind is the page it found, with the computed set as
  \<open>selectedChars\<close> and whatever was logged added to the console.
\<close>

lemma selectionCallback_eq:
  "selectionCallback W n pg =
     pg\<lparr>pg_console := pg_console pg
          @ warned (computeSelectedIndices (W (pg_document pg)) (pg_container pg)
                      (pg_selection pg) n),
        pg_selectedChars :=
          newSelectedChars (computeSelectedIndices (W (pg_document pg)) (pg_container pg)
                              (pg_selection pg) n)\<rparr>"
  by (simp add: selectionCallback_def computeSelectedIndices_def window_getSelection_def
      containerRef_current_def node_contains_def document_createTreeWalker_def
      console_warn_def setSelectedChars_def
      split: option.splits list.splits sum.splits prod.splits)

text \<open>
  C8. When the walk fails before it reaches the end container (the walker returns the
  nodes \<open>ns\<close> and then throws \<open>e\<close>), the callback still returns: the set it hands
  to \<open>setSelectedChars\<close> is empty, \<open>e\<close> is logged, and nothing else of the page has
  changed. On any page and with any walker, the callback leaves the document, the
  selection and the container as it found them, and a callback that logged something
  has set the empty set.
\<close>

theorem walk_failure_recovered:
  assumes "pg_selection pg = Some sel" and "ranges sel = r # rs" and "toString sel \<noteq> []"
    and "pg_container pg = Some root"
    and "contains root (commonAncestorContainer r)"
    and "createTreeWalker (pg_document pg) root = walkThen ns (Throw e)"
    and "endContainer r \<notin> fst ` set ns"
  shows "selectionCallback createTreeWalker contentLength pg
           = pg\<lparr>pg_console := pg_console pg @ [e], pg_selectedChars := {}\<rparr>
       \<and> computeSelectedIndices (createTreeWalker (pg_document pg)) (Some root) (Some sel)
             contentLength
           = \<lparr>newSelectedChars = {}, warned = [e]\<rparr>
       \<and> pg_document (selectionCallback W n pg') = pg_document pg'
       \<and> pg_selection (selectionCallback W n pg') = pg_selection pg'
       \<and> pg_container (selectionCallback W n pg') = pg_container pg'
       \<and> (pg_console (selectionCallback W n pg') \<noteq> pg_console pg'
            \<longrightarrow> pg_selectedChars (selectionCallback W n pg') = {})"
proof -
  have c: "computeSelectedIndices (createTreeWalker (pg_document pg)) (Some root) (Some sel)
             contentLength
           = \<lparr>newSelectedChars = {}, warned = [e]\<rparr>"
    using assms(2,3,5,6)
    by (simp add: computeSelectedIndices_def walkLoop_throws [OF assms(7)])
  have s: "selectionCallback createTreeWalker contentLength pg
           = pg\<lparr>pg_console := pg_console pg @ [e], pg_selectedChars := {}\<rparr>"
    using c assms(1,4) by (simp add: selectionCallback_eq)
  have f: "pg_document (selectionCallback W n pg') = pg_document pg'"
    "pg_selection (selectionCallback W n pg') = pg_selection pg'"
    "pg_container (selectionCallback W n pg') = pg_container pg'"
    by (simp_all add: selectionCallback_eq)
  have l: "pg_console (selectionCallback W n pg') \<noteq> pg_console pg'
            \<longrightarrow> pg_selectedChars (selectionCallback W n pg') = {}"
    by (simp add: selectionCallback_eq computeSelectedIndices_def
        split: option.splits list.splits sum.splits prod.splits)
  from s c f l show ?thesis by simp
qed

text \<open>
  The walker throws after the start leaf, when the start offset is already assigned: the
  three highlighted characters are cleared, the error is logged, and the document, the
  selection and the container are the ones of before.
\<close>

theorem walk_failure_recovered_witness:
  "selectionCallback (\<lambda>doc n. Next [0, 0] (Some [0x68, 0x65]) (Throw TypeError)) 7 helloPage
   = \<lparr>pg_document = helloDocument, pg_selection = Some ellSelection, pg_container = Some [0],
      pg_console = [TypeError], pg_selectedChars = {}\<rparr>"
proof -
  have a: "pg_selection helloPage = Some ellSelection"
    "ranges ellSelection = ellRange # []" "toString ellSelection \<noteq> []"
    "pg_container helloPage = Some [0]"
    "contains [0] (commonAncestorContainer ellRange)"
    "(\<lambda>(doc::node) (n::path). Next [0, 0] (Some [0x68, 0x65]) (Throw TypeError))
        (pg_document helloPage) [0]
       = walkThen [([0, 0], Some [0x68, 0x65])] (Throw TypeError)"
    "endContainer ellRange \<notin> fst ` set [([0, 0], Some [0x68, 0x65 :: 16 word])]"
    by (simp_all add: helloPage_def ellSelection_def ellRange_def contains_def
        commonAncestorContainer_def)
  from walk_failure_recovered
      [where createTreeWalker = "\<lambda>doc n. Next [0, 0] (Some [0x68, 0x65]) (Throw TypeError)"
        and pg = helloPage and root = "[0]" and ns = "[([0, 0], Some [0x68, 0x65])]"
        and e = TypeError and contentLength = 7, OF a]
  show ?thesis by (simp add: helloPage_def)
qed

end
